theory Spec2Isabelle
  imports Main
begin

section \<open>GithubClient: a shallow embedding of src/clients/github\_client.py\<close>

text \<open>
  The module is one class, \<open>GithubClient\<close>, whose methods each make one call into the
  PyGithub library or one raw HTTP request, log the outcome and re-raise (or, in
  \<open>dismiss_review\<close>, swallow) the exception. The embedding keeps exactly that:

  \<^item> everything outside the module (the process environment, the network behind
    \<open>requests\<close>, the PyGithub objects) is a \<open>world\<close> of functions that the methods
    call; a call that raises returns \<open>Inl e\<close>;
  \<^item> a method takes the process state (the instance \<open>self\<close> and the trace of effects
    issued so far) and returns its outcome and the new state; a raised exception is the
    outcome \<open>Inl e\<close>;
  \<^item> every effect a method issues (a log record, an HTTP request, a library call) is
    appended to the trace in program order.
\<close>

subsection \<open>Python values\<close>

text \<open>
  Instances of \<open>Exception\<close>. \<open>HTTPError\<close> (raised by \<open>raise_for_status\<close>, with the
  status code) and \<open>RequestException\<close> (any other exception of the requests library,
  by name) are the instances of \<open>requests.RequestException\<close>.
\<close>

datatype exn =
    HTTPError nat
  | RequestException string
  | GithubException nat
  | KeyError string
  | TypeError
  | OtherException string

fun is_request_exception :: "exn \<Rightarrow> bool" where
  "is_request_exception (HTTPError _) = True"
| "is_request_exception (RequestException _) = True"
| "is_request_exception _ = False"

text \<open>
  What \<open>response.json()\<close> returns: a dict is an association list with distinct keys
  (looked up with \<open>map_of\<close>), a number with a fraction is kept by its literal.
\<close>

datatype json =
    JNull
  | JBool bool
  | JInt int
  | JFloat string
  | JStr string
  | JArr "json list"
  | JObj "(string \<times> json) list"

type_synonym pydict = "(string \<times> json) list"

text \<open>\<open>for comment in comments\<close>: a list gives its elements, a dict its keys, a string
  its characters; anything else is not iterable.\<close>

fun py_iter :: "json \<Rightarrow> exn + json list" where
  "py_iter (JArr xs) = Inr xs"
| "py_iter (JObj kvs) = Inr (map (\<lambda>kv. JStr (fst kv)) kvs)"
| "py_iter (JStr s) = Inr (map (\<lambda>c. JStr [c]) s)"
| "py_iter _ = Inl TypeError"

text \<open>\<open>comment[key]\<close> with a string key: only a dict accepts it, and raises
  \<open>KeyError\<close> when the key is missing.\<close>

fun py_getitem :: "json \<Rightarrow> string \<Rightarrow> exn + json" where
  "py_getitem (JObj kvs) k = (case map_of kvs k of Some v \<Rightarrow> Inr v | None \<Rightarrow> Inl (KeyError k))"
| "py_getitem _ k = Inl TypeError"

text \<open>\<open>str(n)\<close> of an integer, as an f-string formats it.\<close>

definition digit_char :: "nat \<Rightarrow> char" where
  "digit_char d = ''0123456789'' ! d"

fun digits :: "nat \<Rightarrow> string" where
  "digits n = (if n < 10 then [digit_char n] else digits (n div 10) @ [digit_char (n mod 10)])"

definition str_int :: "int \<Rightarrow> string" where
  "str_int i = (if i < 0 then CHR ''-'' # digits (nat (- i)) else digits (nat i))"

text \<open>\<open>str(x)\<close> of what \<open>os.getenv\<close> returned: the string, or \<open>None\<close>.\<close>

definition str_opt :: "string option \<Rightarrow> string" where
  "str_opt x = (case x of None \<Rightarrow> ''None'' | Some s \<Rightarrow> s)"

text \<open>\<open>str.lower\<close>, on the ASCII letters.\<close>

definition lower_char :: "char \<Rightarrow> char" where
  "lower_char c =
     (case map_of (zip ''ABCDEFGHIJKLMNOPQRSTUVWXYZ'' ''abcdefghijklmnopqrstuvwxyz'') c of
        Some l \<Rightarrow> l
      | None \<Rightarrow> c)"

definition lower :: "string \<Rightarrow> string" where
  "lower s = map lower_char s"

subsection \<open>The requests library\<close>

datatype http_method = GET | POST

record request =
  verb :: http_method
  url :: string
  headers :: "(string \<times> string) list"
  timeout :: "nat option"
  json_payload :: "json option"

text \<open>A response: its status code, its \<open>text\<close>, and what \<open>json()\<close> returns or
  raises.\<close>

record response =
  status_code :: nat
  text_body :: string
  json_body :: "exn + json"

text \<open>\<open>Response.raise_for_status\<close> of the requests library: \<open>HTTPError\<close> for a
  client error (4xx) or a server error (5xx) status, nothing otherwise.\<close>

definition raise_for_status :: "response \<Rightarrow> exn + unit" where
  "raise_for_status r =
     (if 400 \<le> status_code r \<and> status_code r < 600 then Inl (HTTPError (status_code r))
      else Inr ())"

subsection \<open>The PyGithub library and the world\<close>

text \<open>A PyGithub object (the \<open>Github\<close> client, a repository, a pull request, a
  comment, a review, a paginated list, a file) is an opaque handle.\<close>

datatype handle = Handle nat

text \<open>A commit object as \<open>get_commit_files\<close> uses it: its \<open>sha\<close>; reading its
  \<open>files\<close> property goes through the world.\<close>

datatype commit = Commit (sha: string)

record world =
  getenv :: "string \<Rightarrow> string option"
  requests_send :: "request \<Rightarrow> exn + response"
  gh_Github :: "string \<Rightarrow> exn + handle"
  gh_get_repo :: "handle \<Rightarrow> string option \<Rightarrow> exn + handle"
  gh_get_pull :: "handle \<Rightarrow> int \<Rightarrow> exn + handle"
  gh_get_issue_comments :: "handle \<Rightarrow> exn + handle"
  gh_create_issue_comment :: "handle \<Rightarrow> string \<Rightarrow> exn + handle"
  gh_files :: "commit \<Rightarrow> exn + handle list"
  gh_get_contents :: "handle \<Rightarrow> string \<Rightarrow> string \<Rightarrow> exn + handle"
  gh_decoded_content :: "handle \<Rightarrow> exn + string"
  bytes_decode :: "string \<Rightarrow> exn + string"
  gh_get_reviews :: "handle \<Rightarrow> exn + handle"
  gh_create_review :: "handle \<Rightarrow> string \<Rightarrow> string \<Rightarrow> exn + handle"

subsection \<open>Effects and the process state\<close>

datatype level = INFO | ERROR

datatype pyval = PInt int | PStr string | PNone | PExn exn

definition of_opt :: "string option \<Rightarrow> pyval" where
  "of_opt x = (case x of None \<Rightarrow> PNone | Some s \<Rightarrow> PStr s)"

datatype lib_call =
    L_Github string
  | L_get_repo handle "string option"
  | L_get_pull handle int
  | L_get_issue_comments handle
  | L_create_issue_comment handle string
  | L_files commit
  | L_get_contents handle string string
  | L_decoded_content handle
  | L_get_reviews handle
  | L_create_review handle string string

datatype event =
    Log level string "pyval list"
  | Http request
  | Lib lib_call

record GithubClient =
  client :: handle
  repo_name :: "string option"
  repo :: handle

record pstate =
  self :: GithubClient
  trace :: "event list"

definition emit :: "event list \<Rightarrow> pstate \<Rightarrow> pstate" where
  "emit evs s = s\<lparr>trace := trace s @ evs\<rparr>"

subsection \<open>Construction\<close>

text \<open>
  \<open>__init__(self, token)\<close>: the three assignments and the log line are inside one
  \<open>try\<close>; the handler logs and re-raises, so a failed construction returns no
  instance. The second argument is the trace before the call.
\<close>

definition init :: "world \<Rightarrow> string \<Rightarrow> event list \<Rightarrow> (exn + GithubClient) \<times> event list" where
  "init w token t =
     (case gh_Github w token of
        Inl e \<Rightarrow>
          (Inl e, t @ [Lib (L_Github token),
                       Log ERROR ''Error initializing GitHub client: %s'' [PExn e]])
      | Inr c \<Rightarrow>
          (let name = getenv w ''GITHUB_REPOSITORY'' in
           case gh_get_repo w c name of
             Inl e \<Rightarrow>
               (Inl e, t @ [Lib (L_Github token), Lib (L_get_repo c name),
                            Log ERROR ''Error initializing GitHub client: %s'' [PExn e]])
           | Inr r \<Rightarrow>
               (Inr \<lparr>client = c, repo_name = name, repo = r\<rparr>,
                t @ [Lib (L_Github token), Lib (L_get_repo c name),
                     Log INFO ''Initialized GitHub client for repository: %s'' [of_opt name]])))"

subsection \<open>The library-backed methods\<close>

definition get_pr :: "world \<Rightarrow> int \<Rightarrow> pstate \<Rightarrow> (exn + handle) \<times> pstate" where
  "get_pr w pr_id s =
     (let s1 = emit [Lib (L_get_pull (repo (self s)) pr_id)] s in
      case gh_get_pull w (repo (self s)) pr_id of
        Inr pr \<Rightarrow> (Inr pr, emit [Log INFO ''Retrieved PR ID: %s'' [PInt pr_id]] s1)
      | Inl e \<Rightarrow>
          (Inl e, emit [Log ERROR ''Error retrieving PR ID %s: %s'' [PInt pr_id, PExn e]] s1))"

definition get_pr_comments :: "world \<Rightarrow> int \<Rightarrow> pstate \<Rightarrow> (exn + handle) \<times> pstate" where
  "get_pr_comments w pr_id s =
     (case get_pr w pr_id s of
        (Inl e, s1) \<Rightarrow>
          (Inl e, emit [Log ERROR ''Error retrieving comments for PR ID %s: %s''
                          [PInt pr_id, PExn e]] s1)
      | (Inr pr, s1) \<Rightarrow>
          (let s2 = emit [Lib (L_get_issue_comments pr)] s1 in
           case gh_get_issue_comments w pr of
             Inr comments \<Rightarrow>
               (Inr comments, emit [Log INFO ''Retrieved comments for PR ID: %s'' [PInt pr_id]] s2)
           | Inl e \<Rightarrow>
               (Inl e, emit [Log ERROR ''Error retrieving comments for PR ID %s: %s''
                               [PInt pr_id, PExn e]] s2)))"

definition post_comment :: "world \<Rightarrow> int \<Rightarrow> string \<Rightarrow> pstate \<Rightarrow> (exn + handle) \<times> pstate" where
  "post_comment w pr_id body s =
     (case get_pr w pr_id s of
        (Inl e, s1) \<Rightarrow>
          (Inl e, emit [Log ERROR ''Error posting comment to PR ID %s: %s''
                          [PInt pr_id, PExn e]] s1)
      | (Inr pr, s1) \<Rightarrow>
          (let s2 = emit [Lib (L_create_issue_comment pr body)] s1 in
           case gh_create_issue_comment w pr body of
             Inr comment \<Rightarrow>
               (Inr comment, emit [Log INFO ''Posted comment to PR ID: %s'' [PInt pr_id]] s2)
           | Inl e \<Rightarrow>
               (Inl e, emit [Log ERROR ''Error posting comment to PR ID %s: %s''
                               [PInt pr_id, PExn e]] s2)))"

definition get_commit_files :: "world \<Rightarrow> commit \<Rightarrow> pstate \<Rightarrow> (exn + handle list) \<times> pstate" where
  "get_commit_files w commit s =
     (let s1 = emit [Lib (L_files commit)] s in
      case gh_files w commit of
        Inr files \<Rightarrow>
          (Inr files, emit [Log INFO ''Retrieved files for commit: %s'' [PStr (sha commit)]] s1)
      | Inl e \<Rightarrow>
          (Inl e, emit [Log ERROR ''Error retrieving files for commit %s: %s''
                          [PStr (sha commit), PExn e]] s1))"

text \<open>\<open>self.repo.get_contents(filename, ref=commit_sha).decoded_content.decode()\<close>:
  three steps, each of which may raise inside the \<open>try\<close>.\<close>

definition get_file_content :: "world \<Rightarrow> string \<Rightarrow> string \<Rightarrow> pstate \<Rightarrow> (exn + string) \<times> pstate" where
  "get_file_content w commit_sha filename s =
     (let err = (\<lambda>e. Log ERROR ''Error retrieving content for file %s at commit %s: %s''
                        [PStr filename, PStr commit_sha, PExn e]);
          s1 = emit [Lib (L_get_contents (repo (self s)) filename commit_sha)] s in
      case gh_get_contents w (repo (self s)) filename commit_sha of
        Inl e \<Rightarrow> (Inl e, emit [err e] s1)
      | Inr f \<Rightarrow>
          (let s2 = emit [Lib (L_decoded_content f)] s1 in
           case gh_decoded_content w f of
             Inl e \<Rightarrow> (Inl e, emit [err e] s2)
           | Inr bytes \<Rightarrow>
               (case bytes_decode w bytes of
                  Inl e \<Rightarrow> (Inl e, emit [err e] s2)
                | Inr content \<Rightarrow>
                    (Inr content,
                     emit [Log INFO ''Retrieved content for file: %s at commit: %s''
                             [PStr filename, PStr commit_sha]] s2))))"

definition get_reviews :: "world \<Rightarrow> int \<Rightarrow> pstate \<Rightarrow> (exn + handle) \<times> pstate" where
  "get_reviews w pr_id s =
     (case get_pr w pr_id s of
        (Inl e, s1) \<Rightarrow>
          (Inl e, emit [Log ERROR ''Error retrieving reviews for PR ID %s: %s''
                          [PInt pr_id, PExn e]] s1)
      | (Inr pr, s1) \<Rightarrow>
          (let s2 = emit [Lib (L_get_reviews pr)] s1 in
           case gh_get_reviews w pr of
             Inr reviews \<Rightarrow>
               (Inr reviews, emit [Log INFO ''Retrieved reviews for PR ID: %s'' [PInt pr_id]] s2)
           | Inl e \<Rightarrow>
               (Inl e, emit [Log ERROR ''Error retrieving reviews for PR ID %s: %s''
                               [PInt pr_id, PExn e]] s2)))"

text \<open>\<open>post_review(self, pr_id, body, event="COMMENT")\<close>: the argument is \<open>None\<close>
  when the caller omits it.\<close>

definition post_review :: "world \<Rightarrow> int \<Rightarrow> string \<Rightarrow> string option \<Rightarrow> pstate \<Rightarrow> (exn + handle) \<times> pstate" where
  "post_review w pr_id body event_arg s =
     (let event = (case event_arg of None \<Rightarrow> ''COMMENT'' | Some ev \<Rightarrow> ev) in
      case get_pr w pr_id s of
        (Inl e, s1) \<Rightarrow>
          (Inl e, emit [Log ERROR ''Error posting %s review to PR ID %s: %s''
                          [PStr (lower event), PInt pr_id, PExn e]] s1)
      | (Inr pr, s1) \<Rightarrow>
          (let s2 = emit [Lib (L_create_review pr body event)] s1 in
           case gh_create_review w pr body event of
             Inr review \<Rightarrow>
               (Inr review, emit [Log INFO ''Posted %s review to PR ID: %s''
                                    [PStr (lower event), PInt pr_id]] s2)
           | Inl e \<Rightarrow>
               (Inl e, emit [Log ERROR ''Error posting %s review to PR ID %s: %s''
                               [PStr (lower event), PInt pr_id, PExn e]] s2)))"

subsection \<open>The raw HTTP methods\<close>

definition auth_header :: "world \<Rightarrow> string \<times> string" where
  "auth_header w = (''Authorization'', ''token '' @ str_opt (getenv w ''GITHUB_TOKEN''))"

definition comments_request :: "world \<Rightarrow> GithubClient \<Rightarrow> int \<Rightarrow> request" where
  "comments_request w c pr_id =
     \<lparr>verb = GET,
      url = ''https://api.github.com/repos/'' @ str_opt (repo_name c) @ ''/issues/''
            @ str_int pr_id @ ''/comments'',
      headers = [auth_header w, (''Accept'', ''Accept: application/vnd.github+json'')],
      timeout = None,
      json_payload = None\<rparr>"

text \<open>The list comprehension of \<open>get_comments\<close>: for each element, \<open>comment["id"]\<close>,
  then \<open>comment["body"]\<close>; the first exception ends it.\<close>

fun comment_dicts :: "json list \<Rightarrow> exn + pydict list" where
  "comment_dicts [] = Inr []"
| "comment_dicts (comment # rest) =
     (case py_getitem comment ''id'' of
        Inl e \<Rightarrow> Inl e
      | Inr i \<Rightarrow>
          (case py_getitem comment ''body'' of
             Inl e \<Rightarrow> Inl e
           | Inr b \<Rightarrow>
               (case comment_dicts rest of
                  Inl e \<Rightarrow> Inl e
                | Inr ds \<Rightarrow> Inr ([(''id'', i), (''body'', b)] # ds))))"

text \<open>\<open>get_comments\<close> has no \<open>try\<close> and no logging: every exception leaves it as
  raised.\<close>

definition get_comments :: "world \<Rightarrow> int \<Rightarrow> pstate \<Rightarrow> (exn + pydict list) \<times> pstate" where
  "get_comments w pr_id s =
     (let req = comments_request w (self s) pr_id;
          s1 = emit [Http req] s in
      case requests_send w req of
        Inl e \<Rightarrow> (Inl e, s1)
      | Inr response \<Rightarrow>
          (case raise_for_status response of
             Inl e \<Rightarrow> (Inl e, s1)
           | Inr _ \<Rightarrow>
               (case json_body response of
                  Inl e \<Rightarrow> (Inl e, s1)
                | Inr comments \<Rightarrow>
                    (case py_iter comments of
                       Inl e \<Rightarrow> (Inl e, s1)
                     | Inr cs \<Rightarrow>
                         (case comment_dicts cs of
                            Inl e \<Rightarrow> (Inl e, s1)
                          | Inr ds \<Rightarrow> (Inr ds, s1))))))"

definition patch_request :: "world \<Rightarrow> GithubClient \<Rightarrow> int \<Rightarrow> request" where
  "patch_request w c pr_id =
     \<lparr>verb = GET,
      url = ''https://api.github.com/repos/'' @ str_opt (repo_name c) @ ''/pulls/''
            @ str_int pr_id,
      headers = [auth_header w, (''Accept'', ''application/vnd.github.v3.diff'')],
      timeout = Some 60,
      json_payload = None\<rparr>"

text \<open>\<open>get_pr_patch\<close>: the handler is \<open>except requests.RequestException\<close>, so only
  such an exception is logged; any other leaves the method as raised.\<close>

definition get_pr_patch :: "world \<Rightarrow> int \<Rightarrow> pstate \<Rightarrow> (exn + string) \<times> pstate" where
  "get_pr_patch w pr_id s =
     (let req = patch_request w (self s) pr_id;
          s1 = emit [Http req] s;
          handler = (\<lambda>e. if is_request_exception e
                          then (Inl e, emit [Log ERROR ''Error retrieving patch for PR ID %s: %s''
                                               [PInt pr_id, PExn e]] s1)
                          else (Inl e, s1)) in
      case requests_send w req of
        Inl e \<Rightarrow> handler e
      | Inr response \<Rightarrow>
          (case raise_for_status response of
             Inl e \<Rightarrow> handler e
           | Inr _ \<Rightarrow>
               (Inr (text_body response),
                emit [Log INFO ''Retrieved patch for PR ID: %s'' [PInt pr_id]] s1)))"

definition dismissal_request :: "world \<Rightarrow> GithubClient \<Rightarrow> int \<Rightarrow> int \<Rightarrow> string \<Rightarrow> request" where
  "dismissal_request w c pr_id review_id reason =
     \<lparr>verb = POST,
      url = ''https://api.github.com/repos/'' @ str_opt (repo_name c) @ ''/pulls/''
            @ str_int pr_id @ ''/reviews/'' @ str_int review_id @ ''/dismissals'',
      headers = [auth_header w, (''Accept'', ''application/vnd.github+json''),
                 (''Content-Type'', ''application/json'')],
      timeout = None,
      json_payload =
        Some (JObj [(''message'', JStr ''This review has been superseded by a newer review.''),
                    (''dismissal_reason'', JStr reason)])\<rparr>"

text \<open>\<open>dismiss_review(self, pr_id, review_id, reason="OUT_OF_DATE")\<close>: the handler
  returns \<open>False\<close> instead of re-raising.\<close>

definition dismiss_review :: "world \<Rightarrow> int \<Rightarrow> int \<Rightarrow> string option \<Rightarrow> pstate \<Rightarrow> (exn + bool) \<times> pstate" where
  "dismiss_review w pr_id review_id reason_arg s =
     (let reason = (case reason_arg of None \<Rightarrow> ''OUT_OF_DATE'' | Some r \<Rightarrow> r);
          req = dismissal_request w (self s) pr_id review_id reason;
          s1 = emit [Http req] s;
          handler = (\<lambda>e. if is_request_exception e
                          then (Inr False,
                                emit [Log ERROR ''Error dismissing review ID %s for PR ID %s: %s''
                                        [PInt review_id, PInt pr_id, PExn e]] s1)
                          else (Inl e, s1)) in
      case requests_send w req of
        Inl e \<Rightarrow> handler e
      | Inr response \<Rightarrow>
          (case raise_for_status response of
             Inl e \<Rightarrow> handler e
           | Inr _ \<Rightarrow>
               (Inr True,
                emit [Log INFO ''Dismissed review ID %s for PR ID %s with reason: %s''
                        [PInt review_id, PInt pr_id, PStr reason]] s1)))"

subsection \<open>The interface as a datatype of calls\<close>

text \<open>To speak about every operation at once, and about sequences of calls: a call
  names a method with its arguments, and \<open>run_call\<close> runs it.\<close>

datatype call =
    GetPr int
  | GetPrComments int
  | GetComments int
  | PostComment int string
  | GetCommitFiles commit
  | GetFileContent string string
  | GetPrPatch int
  | GetReviews int
  | PostReview int string "string option"
  | DismissReview int int "string option"

datatype pyresult =
    RObject handle
  | RObjects "handle list"
  | RDicts "pydict list"
  | RStr string
  | RBool bool

definition returning :: "('a \<Rightarrow> pyresult) \<Rightarrow> (exn + 'a) \<times> pstate \<Rightarrow> (exn + pyresult) \<times> pstate" where
  "returning f out = (case fst out of Inl e \<Rightarrow> (Inl e, snd out) | Inr v \<Rightarrow> (Inr (f v), snd out))"

fun run_call :: "world \<Rightarrow> call \<Rightarrow> pstate \<Rightarrow> (exn + pyresult) \<times> pstate" where
  "run_call w (GetPr pr_id) s = returning RObject (get_pr w pr_id s)"
| "run_call w (GetPrComments pr_id) s = returning RObject (get_pr_comments w pr_id s)"
| "run_call w (GetComments pr_id) s = returning RDicts (get_comments w pr_id s)"
| "run_call w (PostComment pr_id body) s = returning RObject (post_comment w pr_id body s)"
| "run_call w (GetCommitFiles commit) s = returning RObjects (get_commit_files w commit s)"
| "run_call w (GetFileContent commit_sha filename) s =
     returning RStr (get_file_content w commit_sha filename s)"
| "run_call w (GetPrPatch pr_id) s = returning RStr (get_pr_patch w pr_id s)"
| "run_call w (GetReviews pr_id) s = returning RObject (get_reviews w pr_id s)"
| "run_call w (PostReview pr_id body event) s = returning RObject (post_review w pr_id body event s)"
| "run_call w (DismissReview pr_id review_id reason) s =
     returning RBool (dismiss_review w pr_id review_id reason s)"

text \<open>A sequence of calls, each in the world as it is when the call is made; the
  outcomes are collected in order.\<close>

fun run_calls :: "(world \<times> call) list \<Rightarrow> pstate \<Rightarrow> (exn + pyresult) list \<times> pstate" where
  "run_calls [] s = ([], s)"
| "run_calls (wc # rest) s =
     (case run_call (fst wc) (snd wc) s of
        (out, s1) \<Rightarrow> (case run_calls rest s1 of (outs, s2) \<Rightarrow> (out # outs, s2)))"

text \<open>The effects a call adds to the trace.\<close>

definition emitted :: "world \<Rightarrow> call \<Rightarrow> pstate \<Rightarrow> event list" where
  "emitted w c s = drop (length (trace s)) (trace (snd (run_call w c s)))"

fun http_requests :: "event list \<Rightarrow> request list" where
  "http_requests [] = []"
| "http_requests (Http req # evs) = req # http_requests evs"
| "http_requests (_ # evs) = http_requests evs"

fun log_records :: "event list \<Rightarrow> event list" where
  "log_records [] = []"
| "log_records (Log l fmt args # evs) = Log l fmt args # log_records evs"
| "log_records (_ # evs) = log_records evs"

text \<open>The exception with which the call behind an effect fails in a world, if it does:
  what the library call or \<open>requests\<close> raises, or the \<open>HTTPError\<close> that
  \<open>raise_for_status\<close> makes of the response.\<close>

fun lib_failure :: "world \<Rightarrow> lib_call \<Rightarrow> exn option" where
  "lib_failure w (L_Github token) = (case gh_Github w token of Inl e \<Rightarrow> Some e | Inr _ \<Rightarrow> None)"
| "lib_failure w (L_get_repo c name) = (case gh_get_repo w c name of Inl e \<Rightarrow> Some e | Inr _ \<Rightarrow> None)"
| "lib_failure w (L_get_pull r pr_id) = (case gh_get_pull w r pr_id of Inl e \<Rightarrow> Some e | Inr _ \<Rightarrow> None)"
| "lib_failure w (L_get_issue_comments pr) =
     (case gh_get_issue_comments w pr of Inl e \<Rightarrow> Some e | Inr _ \<Rightarrow> None)"
| "lib_failure w (L_create_issue_comment pr body) =
     (case gh_create_issue_comment w pr body of Inl e \<Rightarrow> Some e | Inr _ \<Rightarrow> None)"
| "lib_failure w (L_files commit) = (case gh_files w commit of Inl e \<Rightarrow> Some e | Inr _ \<Rightarrow> None)"
| "lib_failure w (L_get_contents r filename ref) =
     (case gh_get_contents w r filename ref of Inl e \<Rightarrow> Some e | Inr _ \<Rightarrow> None)"
| "lib_failure w (L_decoded_content f) =
     (case gh_decoded_content w f of Inl e \<Rightarrow> Some e | Inr _ \<Rightarrow> None)"
| "lib_failure w (L_get_reviews pr) = (case gh_get_reviews w pr of Inl e \<Rightarrow> Some e | Inr _ \<Rightarrow> None)"
| "lib_failure w (L_create_review pr body event) =
     (case gh_create_review w pr body event of Inl e \<Rightarrow> Some e | Inr _ \<Rightarrow> None)"

fun failure_of :: "world \<Rightarrow> event \<Rightarrow> exn option" where
  "failure_of w (Log l fmt args) = None"
| "failure_of w (Lib c) = lib_failure w c"
| "failure_of w (Http req) =
     (case requests_send w req of
        Inl e \<Rightarrow> Some e
      | Inr response \<Rightarrow>
          (case raise_for_status response of Inl e \<Rightarrow> Some e | Inr _ \<Rightarrow> None))"

fun lib_calls :: "event list \<Rightarrow> lib_call list" where
  "lib_calls [] = []"
| "lib_calls (Lib c # evs) = c # lib_calls evs"
| "lib_calls (_ # evs) = lib_calls evs"

text \<open>The methods that go through \<open>requests\<close> rather than PyGithub.\<close>

fun is_raw_http :: "call \<Rightarrow> bool" where
  "is_raw_http (GetComments pr_id) = True"
| "is_raw_http (GetPrPatch pr_id) = True"
| "is_raw_http (DismissReview pr_id review_id reason) = True"
| "is_raw_http _ = False"

subsection \<open>Example worlds\<close>

text \<open>Concrete worlds on which the theorems below are instantiated: a repository
  \<open>octo/repo\<close> with pull request 7, and a network that answers every request with
  one given response.\<close>

definition example_comments :: json where
  "example_comments =
     JArr [JObj [(''id'', JInt 11), (''user'', JStr ''octocat''), (''body'', JStr ''first'')],
           JObj [(''id'', JInt 12), (''body'', JStr ''second'')]]"

definition ok_response :: response where
  "ok_response =
     \<lparr>status_code = 200, text_body = ''diff --git a/f b/f'', json_body = Inr example_comments\<rparr>"

definition error_response :: "nat \<Rightarrow> response" where
  "error_response status =
     \<lparr>status_code = status, text_body = ''Not Found'',
      json_body = Inr (JObj [(''message'', JStr ''Not Found'')])\<rparr>"

definition not_modified :: response where
  "not_modified =
     \<lparr>status_code = 304, text_body = [], json_body = Inl (OtherException ''JSONDecodeError'')\<rparr>"

definition example_env :: "string \<Rightarrow> string option" where
  "example_env =
     (\<lambda>name. if name = ''GITHUB_REPOSITORY'' then Some ''octo/repo''
             else if name = ''GITHUB_TOKEN'' then Some ''env-token''
             else None)"

definition example_world :: "response \<Rightarrow> world" where
  "example_world resp =
     \<lparr>getenv = example_env,
      requests_send = (\<lambda>req. Inr resp),
      gh_Github = (\<lambda>token. Inr (Handle 0)),
      gh_get_repo = (\<lambda>c name. if name = Some ''octo/repo'' then Inr (Handle 1)
                              else Inl (GithubException 404)),
      gh_get_pull = (\<lambda>r pr_id. if pr_id = 7 then Inr (Handle 2) else Inl (GithubException 404)),
      gh_get_issue_comments = (\<lambda>pr. Inr (Handle 3)),
      gh_create_issue_comment = (\<lambda>pr body. Inr (Handle 4)),
      gh_files = (\<lambda>c. Inr [Handle 5]),
      gh_get_contents = (\<lambda>r filename ref. Inr (Handle 6)),
      gh_decoded_content = (\<lambda>f. Inr ''x = 1''),
      bytes_decode = (\<lambda>bytes. Inr bytes),
      gh_get_reviews = (\<lambda>pr. Inr (Handle 7)),
      gh_create_review = (\<lambda>pr body event. if event = ''APPROVE'' then Inr (Handle 8)
                                           else Inr (Handle 9))\<rparr>"

definition offline_world :: world where
  "offline_world =
     (example_world ok_response)\<lparr>requests_send := (\<lambda>req. Inl (RequestException ''ConnectionError''))\<rparr>"


definition no_library_world :: world where
  "no_library_world =
     (example_world ok_response)\<lparr>gh_Github := (\<lambda>token. Inl (OtherException ''AssertionError''))\<rparr>"

definition no_repository_world :: world where
  "no_repository_world = (example_world ok_response)\<lparr>getenv := (\<lambda>name. None)\<rparr>"

definition example_client :: GithubClient where
  "example_client = \<lparr>client = Handle 0, repo_name = Some ''octo/repo'', repo = Handle 1\<rparr>"

definition example_state :: pstate where
  "example_state = \<lparr>self = example_client, trace = []\<rparr>"

definition example_calls :: "(world \<times> call) list" where
  "example_calls =
     [(example_world ok_response, PostComment 7 ''hello''),
      (example_world (error_response 404), DismissReview 7 3 None),
      (example_world ok_response, GetComments 7)]"

section \<open>Properties\<close>

subsection \<open>Basic facts about the state\<close>

lemma self_emit [simp]: "self (emit evs s) = self s"
  by (simp add: emit_def)

lemma trace_emit [simp]: "trace (emit evs s) = trace s @ evs"
  by (simp add: emit_def)

lemma fst_returning [simp]: "fst (returning f out) = map_sum id f (fst out)"
  by (cases out) (simp add: returning_def split: sum.splits)

lemma snd_returning [simp]: "snd (returning f out) = snd out"
  by (cases out) (simp add: returning_def split: sum.splits)

lemmas method_defs =
  get_pr_def get_pr_comments_def get_comments_def post_comment_def get_commit_files_def
  get_file_content_def get_pr_patch_def get_reviews_def post_review_def dismiss_review_def

lemmas request_defs =
  comments_request_def patch_request_def dismissal_request_def auth_header_def

lemmas example_defs =
  example_world_def example_env_def example_state_def example_client_def ok_response_def
  error_response_def not_modified_def offline_world_def example_comments_def

lemmas eval_simps =
  method_defs request_defs example_defs raise_for_status_def str_opt_def str_int_def
  digit_char_def emitted_def Let_def of_opt_def lower_def lower_char_def init_def

lemma self_run_call: "self (snd (run_call w c s)) = self s"
  by (cases c) (simp_all add: method_defs Let_def split: sum.splits prod.splits)

lemma outcome_ignores_trace: "self s = self s' \<Longrightarrow> fst (run_call w c s) = fst (run_call w c s')"
  by (cases c) (simp_all add: method_defs Let_def split: sum.splits prod.splits)

lemma emitted_ignores_trace: "self s = self s' \<Longrightarrow> emitted w c s = emitted w c s'"
  unfolding emitted_def
  by (cases c) (simp_all add: method_defs Let_def split: sum.splits prod.splits)

lemma trace_run_call: "trace (snd (run_call w c s)) = trace s @ emitted w c s"
  unfolding emitted_def
  by (cases c) (simp_all add: method_defs Let_def split: sum.splits prod.splits)

lemma failure_propagates:
  assumes "ev \<in> set (emitted w c s)" "failure_of w ev = Some e" "\<forall>p r x. c \<noteq> DismissReview p r x"
  shows "fst (run_call w c s) = Inl e"
  using assms unfolding emitted_def
  by (cases c) (auto simp add: method_defs Let_def split: sum.splits prod.splits if_splits)

lemma dismiss_failure_false:
  assumes "ev \<in> set (emitted w (DismissReview p r x) s)" "failure_of w ev = Some e"
    "fst (run_call w (DismissReview p r x) s) = Inr v"
  shows "v = RBool False"
  using assms unfolding emitted_def
  by (auto simp add: method_defs Let_def raise_for_status_def split: sum.splits prod.splits if_splits)

subsection \<open>Error handling of \<open>dismiss_review\<close>\<close>

text \<open>
  Claim C1. Whatever the pull request and the review, when the dismissal POST is
  answered, \<open>dismiss_review\<close> returns \<open>True\<close> on a 2xx status and returns \<open>False\<close>,
  raising nothing, on an HTTP error status (4xx or 5xx). It is the only operation
  that swallows a failure: if any call of the interface returns normally although one
  of the requests or library calls it issued failed, that call is a \<open>dismiss_review\<close>
  and the value it returned is \<open>False\<close>.
\<close>

theorem dismiss_review_reports_false:
  assumes "requests_send w (dismissal_request w (self s) pr_id review_id
             (case reason of None \<Rightarrow> ''OUT_OF_DATE'' | Some r \<Rightarrow> r)) = Inr resp"
  shows "(200 \<le> status_code resp \<and> status_code resp < 300 \<longrightarrow>
            fst (dismiss_review w pr_id review_id reason s) = Inr True) \<and>
         (400 \<le> status_code resp \<and> status_code resp < 600 \<longrightarrow>
            fst (dismiss_review w pr_id review_id reason s) = Inr False) \<and>
         (\<forall>c v. (\<exists>ev \<in> set (emitted w c s). failure_of w ev \<noteq> None) \<and> fst (run_call w c s) = Inr v \<longrightarrow>
            (\<exists>p r x. c = DismissReview p r x) \<and> v = RBool False)"
proof (intro conjI allI impI)
  assume "200 \<le> status_code resp \<and> status_code resp < 300"
  with assms show "fst (dismiss_review w pr_id review_id reason s) = Inr True"
    by (simp add: dismiss_review_def raise_for_status_def Let_def)
next
  assume "400 \<le> status_code resp \<and> status_code resp < 600"
  with assms show "fst (dismiss_review w pr_id review_id reason s) = Inr False"
    by (simp add: dismiss_review_def raise_for_status_def Let_def)
next
  fix c v
  assume h: "(\<exists>ev \<in> set (emitted w c s). failure_of w ev \<noteq> None) \<and> fst (run_call w c s) = Inr v"
  then obtain ev e where ev: "ev \<in> set (emitted w c s)" "failure_of w ev = Some e"
    by auto
  show "\<exists>p r x. c = DismissReview p r x"
  proof (rule ccontr)
    assume "\<not> (\<exists>p r x. c = DismissReview p r x)"
    then have "fst (run_call w c s) = Inl e"
      using failure_propagates [OF ev] by blast
    with h show False by simp
  qed
  then obtain p r x where c: "c = DismissReview p r x" by blast
  show "v = RBool False"
    using dismiss_failure_false [of ev w p r x s e v] ev h unfolding c by blast
qed

theorem dismiss_review_reports_false_witness:
  "requests_send (example_world ok_response)
     (dismissal_request (example_world ok_response) (self example_state) 7 3 ''OUT_OF_DATE'')
     = Inr ok_response \<and>
   status_code ok_response = 200 \<and>
   fst (dismiss_review (example_world ok_response) 7 3 None example_state) = Inr True \<and>
   status_code (error_response 404) = 404 \<and>
   fst (dismiss_review (example_world (error_response 404)) 7 3 None example_state) = Inr False \<and>
   failure_of (example_world (error_response 404))
     (hd (emitted (example_world (error_response 404)) (DismissReview 7 3 None) example_state))
     = Some (HTTPError 404) \<and>
   fst (run_call (example_world (error_response 404)) (DismissReview 7 3 None) example_state)
     = Inr (RBool False)"
  using dismiss_review_reports_false [of "example_world ok_response" example_state 7 3 None ok_response]
    dismiss_review_reports_false [of "example_world (error_response 404)" example_state 7 3 None
      "error_response 404"]
  by (simp add: eval_simps)

subsection \<open>The shape of \<open>get_comments\<close>\<close>

lemma comment_dicts_shape:
  "comment_dicts cs = Inr ds \<Longrightarrow>
     length ds = length cs \<and>
     (\<forall>i<length cs. \<exists>kvs vi vb. cs ! i = JObj kvs \<and> map_of kvs ''id'' = Some vi \<and>
        map_of kvs ''body'' = Some vb \<and> ds ! i = [(''id'', vi), (''body'', vb)])"
proof (induction cs arbitrary: ds)
  case Nil
  then show ?case by simp
next
  case (Cons c cs)
  from Cons.prems obtain vi vb ds' where
    vi: "py_getitem c ''id'' = Inr vi" and vb: "py_getitem c ''body'' = Inr vb"
    and ds': "comment_dicts cs = Inr ds'" and ds: "ds = [(''id'', vi), (''body'', vb)] # ds'"
    by (auto split: sum.splits)
  from vi obtain kvs where c: "c = JObj kvs"
    by (cases c) simp_all
  from vi vb c have look: "map_of kvs ''id'' = Some vi" "map_of kvs ''body'' = Some vb"
    by (simp_all split: option.splits)
  have IH: "length ds' = length cs \<and>
     (\<forall>i<length cs. \<exists>kvs vi vb. cs ! i = JObj kvs \<and> map_of kvs ''id'' = Some vi \<and>
        map_of kvs ''body'' = Some vb \<and> ds' ! i = [(''id'', vi), (''body'', vb)])"
    using Cons.IH [OF ds'] .
  show ?case
  proof (intro conjI allI impI)
    show "length ds = length (c # cs)" using IH ds by simp
  next
    fix i assume i: "i < length (c # cs)"
    show "\<exists>kvs vi vb. (c # cs) ! i = JObj kvs \<and> map_of kvs ''id'' = Some vi \<and>
        map_of kvs ''body'' = Some vb \<and> ds ! i = [(''id'', vi), (''body'', vb)]"
    proof (cases i)
      case 0
      then show ?thesis using c look ds by simp
    next
      case (Suc j)
      then show ?thesis using IH i ds by simp
    qed
  qed
qed

lemma comment_dicts_total:
  "\<forall>c\<in>set cs. \<exists>kvs vi vb. c = JObj kvs \<and> map_of kvs ''id'' = Some vi \<and> map_of kvs ''body'' = Some vb
     \<Longrightarrow> \<exists>ds. comment_dicts cs = Inr ds"
  by (induction cs) auto

text \<open>
  Claim C2. When the comments request is answered with a JSON array \<open>cs\<close>, every list
  that \<open>get_comments\<close> returns has one element per element of \<open>cs\<close>, in the same order;
  the element at position \<open>i\<close> is the dict with exactly the keys \<open>id\<close> and \<open>body\<close>,
  in that order, whose values are the \<open>id\<close> and \<open>body\<close> fields of \<open>cs ! i\<close>. And it
  does return such a list whenever the status is not an error status and every element
  of the array is an object carrying both fields.
\<close>

theorem get_comments_shape:
  assumes "requests_send w (comments_request w (self s) pr_id) = Inr resp"
    and "json_body resp = Inr (JArr cs)"
  shows "(\<forall>ds. fst (get_comments w pr_id s) = Inr ds \<longrightarrow>
            length ds = length cs \<and>
            (\<forall>i<length cs. \<exists>kvs vi vb. cs ! i = JObj kvs \<and> map_of kvs ''id'' = Some vi \<and>
               map_of kvs ''body'' = Some vb \<and> ds ! i = [(''id'', vi), (''body'', vb)])) \<and>
         (\<not> (400 \<le> status_code resp \<and> status_code resp < 600) \<and>
          (\<forall>c\<in>set cs. \<exists>kvs vi vb. c = JObj kvs \<and> map_of kvs ''id'' = Some vi \<and>
               map_of kvs ''body'' = Some vb) \<longrightarrow>
            (\<exists>ds. fst (get_comments w pr_id s) = Inr ds))"
proof (rule conjI)
  show "\<forall>ds. fst (get_comments w pr_id s) = Inr ds \<longrightarrow>
            length ds = length cs \<and>
            (\<forall>i<length cs. \<exists>kvs vi vb. cs ! i = JObj kvs \<and> map_of kvs ''id'' = Some vi \<and>
               map_of kvs ''body'' = Some vb \<and> ds ! i = [(''id'', vi), (''body'', vb)])"
  proof (intro allI impI)
    fix ds
    assume "fst (get_comments w pr_id s) = Inr ds"
    with assms have "comment_dicts cs = Inr ds"
      by (simp add: get_comments_def Let_def split: sum.splits)
    then show "length ds = length cs \<and>
            (\<forall>i<length cs. \<exists>kvs vi vb. cs ! i = JObj kvs \<and> map_of kvs ''id'' = Some vi \<and>
               map_of kvs ''body'' = Some vb \<and> ds ! i = [(''id'', vi), (''body'', vb)])"
      by (rule comment_dicts_shape)
  qed
next
  show "\<not> (400 \<le> status_code resp \<and> status_code resp < 600) \<and>
          (\<forall>c\<in>set cs. \<exists>kvs vi vb. c = JObj kvs \<and> map_of kvs ''id'' = Some vi \<and>
               map_of kvs ''body'' = Some vb) \<longrightarrow>
            (\<exists>ds. fst (get_comments w pr_id s) = Inr ds)"
  proof (rule impI)
    assume h: "\<not> (400 \<le> status_code resp \<and> status_code resp < 600) \<and>
          (\<forall>c\<in>set cs. \<exists>kvs vi vb. c = JObj kvs \<and> map_of kvs ''id'' = Some vi \<and>
               map_of kvs ''body'' = Some vb)"
    then obtain ds where "comment_dicts cs = Inr ds"
      using comment_dicts_total [of cs] by blast
    with assms h show "\<exists>ds. fst (get_comments w pr_id s) = Inr ds"
      by (simp add: get_comments_def Let_def raise_for_status_def)
  qed
qed

theorem get_comments_shape_witness:
  "requests_send (example_world ok_response)
     (comments_request (example_world ok_response) (self example_state) 7) = Inr ok_response \<and>
   json_body ok_response =
     Inr (JArr [JObj [(''id'', JInt 11), (''user'', JStr ''octocat''), (''body'', JStr ''first'')],
                JObj [(''id'', JInt 12), (''body'', JStr ''second'')]]) \<and>
   fst (get_comments (example_world ok_response) 7 example_state) =
     Inr [[(''id'', JInt 11), (''body'', JStr ''first'')],
          [(''id'', JInt 12), (''body'', JStr ''second'')]]"
  using get_comments_shape [of "example_world ok_response" example_state 7 ok_response
      "[JObj [(''id'', JInt 11), (''user'', JStr ''octocat''), (''body'', JStr ''first'')],
        JObj [(''id'', JInt 12), (''body'', JStr ''second'')]]"]
  by (simp add: eval_simps)

subsection \<open>Propagation of failures\<close>




subsection \<open>Logging of exceptions\<close>

text \<open>\<open>get_comments\<close> writes no log record, whatever happens.\<close>

lemma get_comments_never_logs: "log_records (emitted w (GetComments pr_id) s) = []"
  by (simp add: emitted_def get_comments_def Let_def split: sum.splits)




subsection \<open>The requests of the raw HTTP methods\<close>

lemma http_requests_get_comments:
  "http_requests (emitted w (GetComments pr_id) s) = [comments_request w (self s) pr_id]"
  by (simp add: emitted_def get_comments_def Let_def split: sum.splits)

lemma http_requests_get_pr_patch:
  "http_requests (emitted w (GetPrPatch pr_id) s) = [patch_request w (self s) pr_id]"
  by (simp add: emitted_def get_pr_patch_def Let_def split: sum.splits)

lemma http_requests_dismiss_review:
  "http_requests (emitted w (DismissReview pr_id review_id reason) s) =
     [dismissal_request w (self s) pr_id review_id
        (case reason of None \<Rightarrow> ''OUT_OF_DATE'' | Some r \<Rightarrow> r)]"
  by (simp add: emitted_def dismiss_review_def Let_def split: sum.splits)

lemma init_repo_name:
  "init w0 token t = (Inr c, t1) \<Longrightarrow> repo_name c = getenv w0 ''GITHUB_REPOSITORY''"
  by (auto simp add: init_def Let_def split: sum.splits)

lemma raw_requests_same_repo_name:
  assumes "is_raw_http c" "repo_name (self s) = repo_name (self s')"
  shows "http_requests (emitted w c s) = http_requests (emitted w c s')"
  using assms
  by (cases c)
    (simp_all add: http_requests_get_comments http_requests_get_pr_patch
      http_requests_dismiss_review comments_request_def patch_request_def dismissal_request_def)

text \<open>
  Claim C5. Whatever the pull request, \<open>get_pr_patch\<close> issues exactly one HTTP
  request: a GET of \<open>https://api.github.com/repos/{repo_name}/pulls/{pr_id}\<close> with the
  header \<open>Accept: application/vnd.github.v3.diff\<close> and a timeout of 60 seconds. When
  that request is answered, the method raises \<open>HTTPError\<close> if the status is an error
  status (404 and 500 among them) and otherwise returns the text of the response
  unchanged.
\<close>

theorem get_pr_patch_request_and_body:
  "\<exists>req. http_requests (emitted w (GetPrPatch pr_id) s) = [req] \<and>
     verb req = GET \<and>
     url req = ''https://api.github.com/repos/'' @ str_opt (repo_name (self s)) @ ''/pulls/''
               @ str_int pr_id \<and>
     map_of (headers req) ''Accept'' = Some ''application/vnd.github.v3.diff'' \<and>
     timeout req = Some 60 \<and>
     (\<forall>resp. requests_send w req = Inr resp \<longrightarrow>
        fst (get_pr_patch w pr_id s) =
          (if 400 \<le> status_code resp \<and> status_code resp < 600
           then Inl (HTTPError (status_code resp)) else Inr (text_body resp)))"
proof -
  let ?req = "patch_request w (self s) pr_id"
  have "http_requests (emitted w (GetPrPatch pr_id) s) = [?req]"
    by (simp add: emitted_def get_pr_patch_def Let_def split: sum.splits)
  moreover have "verb ?req = GET" "timeout ?req = Some 60"
    "url ?req = ''https://api.github.com/repos/'' @ str_opt (repo_name (self s)) @ ''/pulls/''
               @ str_int pr_id"
    "map_of (headers ?req) ''Accept'' = Some ''application/vnd.github.v3.diff''"
    by (simp_all add: patch_request_def auth_header_def)
  moreover have "\<forall>resp. requests_send w ?req = Inr resp \<longrightarrow>
        fst (get_pr_patch w pr_id s) =
          (if 400 \<le> status_code resp \<and> status_code resp < 600
           then Inl (HTTPError (status_code resp)) else Inr (text_body resp))"
    by (simp add: get_pr_patch_def Let_def raise_for_status_def)
  ultimately show ?thesis by blast
qed

theorem get_pr_patch_request_and_body_witness:
  "http_requests (emitted (example_world ok_response) (GetPrPatch 7) example_state) =
     [\<lparr>verb = GET, url = ''https://api.github.com/repos/octo/repo/pulls/7'',
       headers = [(''Authorization'', ''token env-token''),
                  (''Accept'', ''application/vnd.github.v3.diff'')],
       timeout = Some 60, json_payload = None\<rparr>] \<and>
   fst (get_pr_patch (example_world ok_response) 7 example_state) = Inr ''diff --git a/f b/f'' \<and>
   fst (get_pr_patch (example_world (error_response 404)) 7 example_state) = Inl (HTTPError 404) \<and>
   fst (get_pr_patch (example_world (error_response 500)) 7 example_state) = Inl (HTTPError 500)"
proof -
  have gen: "fst (get_pr_patch (example_world r) 7 example_state) =
      (if 400 \<le> status_code r \<and> status_code r < 600
       then Inl (HTTPError (status_code r)) else Inr (text_body r))" for r
  proof -
    from get_pr_patch_request_and_body [of "example_world r" 7 example_state]
    obtain req where req: "\<forall>resp. requests_send (example_world r) req = Inr resp \<longrightarrow>
        fst (get_pr_patch (example_world r) 7 example_state) =
          (if 400 \<le> status_code resp \<and> status_code resp < 600
           then Inl (HTTPError (status_code resp)) else Inr (text_body resp))"
      by blast
    have "requests_send (example_world r) req = Inr r"
      by (simp add: example_world_def)
    with req show ?thesis by blast
  qed
  have "http_requests (emitted (example_world ok_response) (GetPrPatch 7) example_state) =
     [\<lparr>verb = GET, url = ''https://api.github.com/repos/octo/repo/pulls/7'',
       headers = [(''Authorization'', ''token env-token''),
                  (''Accept'', ''application/vnd.github.v3.diff'')],
       timeout = Some 60, json_payload = None\<rparr>]"
    by (simp add: eval_simps)
  then show ?thesis
    using gen [of ok_response] gen [of "error_response 404"] gen [of "error_response 500"]
    by (simp add: ok_response_def error_response_def)
qed

subsection \<open>Reviews\<close>

text \<open>
  Claim C6. When the pull request is found, \<open>post_review\<close> calls \<open>create_review\<close> on
  it with the body and the event string exactly as given, and its outcome is the outcome
  of that call (the review the library created for that event, or the exception it
  raised). With the event omitted it behaves as with the event \<open>COMMENT\<close>.
\<close>

theorem post_review_forwards_event:
  assumes "gh_get_pull w (repo (self s)) pr_id = Inr pr"
  shows "fst (post_review w pr_id body (Some event) s) = gh_create_review w pr body event \<and>
         lib_calls (emitted w (PostReview pr_id body (Some event)) s) =
           [L_get_pull (repo (self s)) pr_id, L_create_review pr body event] \<and>
         post_review w pr_id body None s = post_review w pr_id body (Some ''COMMENT'') s"
  using assms
  by (simp add: post_review_def get_pr_def emitted_def Let_def split: sum.splits)

theorem post_review_forwards_event_witness:
  "gh_get_pull (example_world ok_response) (repo (self example_state)) 7 = Inr (Handle 2) \<and>
   fst (post_review (example_world ok_response) 7 ''LGTM'' (Some ''APPROVE'') example_state) =
     Inr (Handle 8) \<and>
   lib_calls (emitted (example_world ok_response) (PostReview 7 ''LGTM'' (Some ''APPROVE''))
      example_state) = [L_get_pull (Handle 1) 7, L_create_review (Handle 2) ''LGTM'' ''APPROVE''] \<and>
   fst (post_review (example_world ok_response) 7 ''LGTM'' None example_state) = Inr (Handle 9)"
proof -
  let ?w = "example_world ok_response"
  have h: "gh_get_pull ?w (repo (self example_state)) 7 = Inr (Handle 2)"
    by (simp add: example_world_def)
  have r: "repo (self example_state) = Handle 1"
    by (simp add: example_state_def example_client_def)
  have cr: "gh_create_review ?w (Handle 2) ''LGTM'' ''APPROVE'' = Inr (Handle 8)"
    "gh_create_review ?w (Handle 2) ''LGTM'' ''COMMENT'' = Inr (Handle 9)"
    by (simp_all add: example_world_def)
  note a = post_review_forwards_event [OF h, of "''LGTM''" "''APPROVE''"]
  note c = post_review_forwards_event [OF h, of "''LGTM''" "''COMMENT''"]
  from a c h show ?thesis unfolding r cr by simp
qed

subsection \<open>Construction succeeds or raises\<close>

text \<open>
  Claim C7. Construction with a token reads \<open>GITHUB_REPOSITORY\<close> from the environment
  and resolves that repository through the client made from the token: when both steps
  succeed the instance holds the client, the name read and the repository handle; when
  making the client fails, or resolving the repository fails, the constructor raises
  that exception, and an outcome that is an exception carries no instance. Conversely
  an instance is only ever returned with all three fields set from successful steps.
\<close>

theorem init_all_or_nothing:
  "(\<forall>g r. gh_Github w token = Inr g \<and> gh_get_repo w g (getenv w ''GITHUB_REPOSITORY'') = Inr r \<longrightarrow>
      fst (init w token t) =
        Inr \<lparr>client = g, repo_name = getenv w ''GITHUB_REPOSITORY'', repo = r\<rparr>) \<and>
   (\<forall>e. gh_Github w token = Inl e \<longrightarrow> fst (init w token t) = Inl e) \<and>
   (\<forall>g e. gh_Github w token = Inr g \<and> gh_get_repo w g (getenv w ''GITHUB_REPOSITORY'') = Inl e \<longrightarrow>
      fst (init w token t) = Inl e) \<and>
   (\<forall>c. fst (init w token t) = Inr c \<longrightarrow>
      repo_name c = getenv w ''GITHUB_REPOSITORY'' \<and> gh_Github w token = Inr (client c) \<and>
      gh_get_repo w (client c) (repo_name c) = Inr (repo c))"
  by (auto simp add: init_def Let_def split: sum.splits)

theorem init_all_or_nothing_witness:
  "gh_Github (example_world ok_response) ''ctor-token'' = Inr (Handle 0) \<and>
   getenv (example_world ok_response) ''GITHUB_REPOSITORY'' = Some ''octo/repo'' \<and>
   gh_get_repo (example_world ok_response) (Handle 0) (Some ''octo/repo'') = Inr (Handle 1) \<and>
   fst (init (example_world ok_response) ''ctor-token'' []) =
     Inr \<lparr>client = Handle 0, repo_name = Some ''octo/repo'', repo = Handle 1\<rparr> \<and>
   gh_Github no_library_world ''ctor-token'' = Inl (OtherException ''AssertionError'') \<and>
   fst (init no_library_world ''ctor-token'' []) = Inl (OtherException ''AssertionError'') \<and>
   gh_Github no_repository_world ''ctor-token'' = Inr (Handle 0) \<and>
   gh_get_repo no_repository_world (Handle 0) (getenv no_repository_world ''GITHUB_REPOSITORY'')
     = Inl (GithubException 404) \<and>
   fst (init no_repository_world ''ctor-token'' []) = Inl (GithubException 404)"
proof -
  let ?w = "example_world ok_response"
  have a1: "gh_Github ?w ''ctor-token'' = Inr (Handle 0)"
    by (simp add: example_world_def)
  have a2: "getenv ?w ''GITHUB_REPOSITORY'' = Some ''octo/repo''"
    by (simp add: example_world_def example_env_def)
  have a3: "gh_get_repo ?w (Handle 0) (Some ''octo/repo'') = Inr (Handle 1)"
    by (simp add: example_world_def)
  have a4: "gh_get_repo ?w (Handle 0) (getenv ?w ''GITHUB_REPOSITORY'') = Inr (Handle 1)"
    unfolding a2 by (rule a3)
  have b: "gh_Github no_library_world ''ctor-token'' = Inl (OtherException ''AssertionError'')"
    by (simp add: no_library_world_def)
  have c1: "gh_Github no_repository_world ''ctor-token'' = Inr (Handle 0)"
    by (simp add: no_repository_world_def example_world_def)
  have c2: "gh_get_repo no_repository_world (Handle 0)
              (getenv no_repository_world ''GITHUB_REPOSITORY'') = Inl (GithubException 404)"
    by (simp add: no_repository_world_def example_world_def)
  note t1 = init_all_or_nothing [of ?w "''ctor-token''" "[]", THEN conjunct1, rule_format,
      OF conjI [OF a1 a4]]
  note t2 = init_all_or_nothing [of no_library_world "''ctor-token''" "[]", THEN conjunct2,
      THEN conjunct1, rule_format, OF b]
  note t3 = init_all_or_nothing [of no_repository_world "''ctor-token''" "[]", THEN conjunct2,
      THEN conjunct2, THEN conjunct1, rule_format, OF conjI [OF c1 c2]]
  have 1: "fst (init ?w ''ctor-token'' []) =
     Inr \<lparr>client = Handle 0, repo_name = Some ''octo/repo'', repo = Handle 1\<rparr>"
    using t1 unfolding a2 .
  show ?thesis
    by (intro conjI a1 a2 a3 1 b t2 c1 c2 t3)
qed

subsection \<open>Credentials of the raw HTTP methods\<close>

text \<open>
  Claim C8. Each of \<open>get_comments\<close>, \<open>get_pr_patch\<close> and \<open>dismiss_review\<close> issues one
  request, whose \<open>Authorization\<close> header is \<open>token\<close> followed by the value of
  \<open>GITHUB_TOKEN\<close> in the environment of the call (\<open>str\<close> of it: the text \<open>None\<close>
  when the variable is unset). The token given to the constructor plays no part: two
  instances constructed with any two tokens issue the same requests.
\<close>

theorem raw_requests_carry_env_token:
  assumes "is_raw_http c"
  shows "\<exists>req. http_requests (emitted w c s) = [req] \<and>
           map_of (headers req) ''Authorization'' =
             Some (''token '' @ str_opt (getenv w ''GITHUB_TOKEN'')) \<and>
           (\<forall>w0 token token' t t' c1 c2 t1 t2.
              init w0 token t = (Inr c1, t1) \<and> init w0 token' t' = (Inr c2, t2) \<longrightarrow>
              http_requests (emitted w c \<lparr>self = c1, trace = t1\<rparr>) =
              http_requests (emitted w c \<lparr>self = c2, trace = t2\<rparr>))"
proof -
  have indep: "\<forall>w0 token token' t t' c1 c2 t1 t2.
              init w0 token t = (Inr c1, t1) \<and> init w0 token' t' = (Inr c2, t2) \<longrightarrow>
              http_requests (emitted w c \<lparr>self = c1, trace = t1\<rparr>) =
              http_requests (emitted w c \<lparr>self = c2, trace = t2\<rparr>)"
  proof (intro allI impI)
    fix w0 token token' t t' c1 c2 t1 t2
    assume "init w0 token t = (Inr c1, t1) \<and> init w0 token' t' = (Inr c2, t2)"
    then have "repo_name c1 = repo_name c2"
      using init_repo_name [of w0 token t c1 t1] init_repo_name [of w0 token' t' c2 t2] by simp
    then show "http_requests (emitted w c \<lparr>self = c1, trace = t1\<rparr>) =
              http_requests (emitted w c \<lparr>self = c2, trace = t2\<rparr>)"
      using raw_requests_same_repo_name [OF assms] by simp
  qed
  have "\<exists>req. http_requests (emitted w c s) = [req] \<and>
           map_of (headers req) ''Authorization'' =
             Some (''token '' @ str_opt (getenv w ''GITHUB_TOKEN''))"
  proof (cases c)
    case (GetComments p)
    then show ?thesis
      by (simp add: http_requests_get_comments comments_request_def auth_header_def)
  next
    case (GetPrPatch p)
    then show ?thesis
      by (simp add: http_requests_get_pr_patch patch_request_def auth_header_def)
  next
    case (DismissReview p r x)
    then show ?thesis
      by (simp add: http_requests_dismiss_review dismissal_request_def auth_header_def)
  qed (use assms in simp_all)
  then obtain req where req: "http_requests (emitted w c s) = [req]"
    "map_of (headers req) ''Authorization'' = Some (''token '' @ str_opt (getenv w ''GITHUB_TOKEN''))"
    by (elim exE conjE)
  show ?thesis
    by (rule exI [of _ req]) (intro conjI req indep)
qed

theorem raw_requests_carry_env_token_witness:
  "is_raw_http (GetPrPatch 7) \<and>
   fst (init (example_world ok_response) ''ctor-token'' []) = Inr example_client \<and>
   getenv (example_world ok_response) ''GITHUB_TOKEN'' = Some ''env-token'' \<and>
   map_of (headers (hd (http_requests
     (emitted (example_world ok_response) (GetPrPatch 7) example_state)))) ''Authorization''
     = Some ''token env-token'' \<and>
   map_of (headers (hd (http_requests
     (emitted (example_world ok_response) (GetComments 7) example_state)))) ''Authorization''
     = Some ''token env-token'' \<and>
   map_of (headers (hd (http_requests
     (emitted (example_world ok_response) (DismissReview 7 3 None) example_state))))
     ''Authorization'' = Some ''token env-token''"
proof -
  let ?w = "example_world ok_response"
  have tok: "str_opt (getenv ?w ''GITHUB_TOKEN'') = ''env-token''"
    "getenv ?w ''GITHUB_TOKEN'' = Some ''env-token''"
    by (simp_all add: example_world_def example_env_def str_opt_def)
  have i: "fst (init ?w ''ctor-token'' []) = Inr example_client"
    by (simp add: init_def example_world_def example_env_def example_client_def Let_def)
  have gen: "map_of (headers (hd (http_requests (emitted ?w c example_state)))) ''Authorization''
     = Some ''token env-token''" if "is_raw_http c" for c
  proof -
    from raw_requests_carry_env_token [OF that, of ?w example_state]
    obtain req where "http_requests (emitted ?w c example_state) = [req]"
      "map_of (headers req) ''Authorization'' = Some (''token '' @ str_opt (getenv ?w ''GITHUB_TOKEN''))"
      by (elim exE conjE)
    then show ?thesis by (simp add: tok(2) str_opt_def)
  qed
  have raw: "is_raw_http (GetPrPatch 7)" "is_raw_http (GetComments 7)"
    "is_raw_http (DismissReview 7 3 None)"
    by simp_all
  show ?thesis
    by (intro conjI raw(1) i tok(2) gen [OF raw(1)] gen [OF raw(2)] gen [OF raw(3)])
qed

subsection \<open>The instance is never modified\<close>

lemma run_calls_Cons:
  "run_calls (wc # wcs) s =
     (fst (run_call (fst wc) (snd wc) s) # fst (run_calls wcs (snd (run_call (fst wc) (snd wc) s))),
      snd (run_calls wcs (snd (run_call (fst wc) (snd wc) s))))"
  by (simp split: prod.splits)

lemma run_calls_self: "self (snd (run_calls wcs s)) = self s"
proof (induction wcs arbitrary: s)
  case Nil
  then show ?case by simp
next
  case (Cons wc wcs)
  have "self (snd (run_calls wcs (snd (run_call (fst wc) (snd wc) s)))) = self s"
    using Cons.IH [of "snd (run_call (fst wc) (snd wc) s)"] self_run_call by simp
  then show ?case by (simp only: run_calls_Cons snd_conv)
qed

lemma run_calls_length: "length (fst (run_calls wcs s)) = length wcs"
proof (induction wcs arbitrary: s)
  case Nil
  then show ?case by simp
next
  case (Cons wc wcs)
  then show ?case by (simp only: run_calls_Cons fst_conv list.size)
qed

lemma run_calls_nth:
  "i < length wcs \<Longrightarrow> self s' = self s \<Longrightarrow>
     fst (run_calls wcs s) ! i = fst (run_call (fst (wcs ! i)) (snd (wcs ! i)) s')"
proof (induction wcs arbitrary: s i)
  case Nil
  then show ?case by simp
next
  case (Cons wc wcs)
  let ?s1 = "snd (run_call (fst wc) (snd wc) s)"
  have unfold: "fst (run_calls (wc # wcs) s) =
      fst (run_call (fst wc) (snd wc) s) # fst (run_calls wcs ?s1)"
    by (simp only: run_calls_Cons fst_conv)
  show ?case
  proof (cases i)
    case 0
    then show ?thesis
      using unfold outcome_ignores_trace [of s s' "fst wc" "snd wc"] Cons.prems by simp
  next
    case (Suc j)
    have "self s' = self ?s1"
      using Cons.prems self_run_call [of "fst wc" "snd wc" s] by simp
    then have "fst (run_calls wcs ?s1) ! j = fst (run_call (fst (wcs ! j)) (snd (wcs ! j)) s')"
      using Cons.IH [of j ?s1] Cons.prems Suc by simp
    then show ?thesis using unfold Suc by simp
  qed
qed

text \<open>
  Claim C9. After any sequence of calls, each made in the world of its moment, the
  fields \<open>client\<close>, \<open>repo_name\<close> and \<open>repo\<close> of the instance are what they were before
  the first call; and the outcome of every call of the sequence is the outcome the same
  call has, in the same world, on the instance as constructed with nothing done before:
  it does not depend on the calls that preceded it.
\<close>

theorem calls_leave_client_unchanged:
  "client (self (snd (run_calls wcs s))) = client (self s) \<and>
   repo_name (self (snd (run_calls wcs s))) = repo_name (self s) \<and>
   repo (self (snd (run_calls wcs s))) = repo (self s) \<and>
   length (fst (run_calls wcs s)) = length wcs \<and>
   (\<forall>i<length wcs. fst (run_calls wcs s) ! i =
      fst (run_call (fst (wcs ! i)) (snd (wcs ! i)) \<lparr>self = self s, trace = []\<rparr>))"
  using run_calls_self [of wcs s] run_calls_length [of wcs s]
    run_calls_nth [of _ wcs "\<lparr>self = self s, trace = []\<rparr>" s]
  by simp

theorem calls_leave_client_unchanged_witness:
  "self (snd (run_calls example_calls example_state)) = example_client \<and>
   fst (run_calls example_calls example_state) ! 2 =
     Inr (RDicts [[(''id'', JInt 11), (''body'', JStr ''first'')],
                  [(''id'', JInt 12), (''body'', JStr ''second'')]]) \<and>
   fst (run_call (example_world ok_response) (GetComments 7) example_state) =
     Inr (RDicts [[(''id'', JInt 11), (''body'', JStr ''first'')],
                  [(''id'', JInt 12), (''body'', JStr ''second'')]])"
proof -
  note th = calls_leave_client_unchanged [of example_calls example_state]
  have len: "2 < length example_calls" "example_calls ! 2 = (example_world ok_response, GetComments 7)"
    by (simp_all add: example_calls_def)
  have fresh: "\<lparr>self = self example_state, trace = []\<rparr> = example_state"
    by (simp add: example_state_def)
  have out: "fst (run_call (example_world ok_response) (GetComments 7) example_state) =
     Inr (RDicts [[(''id'', JInt 11), (''body'', JStr ''first'')],
                  [(''id'', JInt 12), (''body'', JStr ''second'')]])"
    by (simp add: get_comments_def example_world_def ok_response_def example_comments_def
        raise_for_status_def)
  from th len have "fst (run_calls example_calls example_state) ! 2 =
      fst (run_call (example_world ok_response) (GetComments 7) \<lparr>self = self example_state, trace = []\<rparr>)"
    by simp
  then have nth: "fst (run_calls example_calls example_state) ! 2 =
     Inr (RDicts [[(''id'', JInt 11), (''body'', JStr ''first'')],
                  [(''id'', JInt 12), (''body'', JStr ''second'')]])"
    unfolding fresh out .
  have "self (snd (run_calls example_calls example_state)) = self example_state"
    using th by (simp add: GithubClient.equality)
  then have "self (snd (run_calls example_calls example_state)) = example_client"
    by (simp add: example_state_def)
  with nth out show ?thesis by blast
qed

subsection \<open>The Accept header of \<open>get_comments\<close>\<close>

text \<open>
  Claim C10. Whatever the pull request, the one request that \<open>get_comments\<close> issues
  carries, under the header name \<open>Accept\<close>, the value
  \<open>Accept: application/vnd.github+json\<close>, with the header name repeated inside the
  value, and not the value \<open>application/vnd.github+json\<close>.
\<close>

theorem get_comments_accept_header:
  "\<exists>req. http_requests (emitted w (GetComments pr_id) s) = [req] \<and>
     map_of (headers req) ''Accept'' = Some ''Accept: application/vnd.github+json'' \<and>
     map_of (headers req) ''Accept'' \<noteq> Some ''application/vnd.github+json''"
proof -
  let ?req = "comments_request w (self s) pr_id"
  have "map_of (headers ?req) ''Accept'' = Some ''Accept: application/vnd.github+json''"
    by (simp add: comments_request_def auth_header_def)
  moreover have "''Accept: application/vnd.github+json'' \<noteq> ''application/vnd.github+json''"
    by simp
  ultimately show ?thesis
    using http_requests_get_comments [of w pr_id s] by auto
qed

end
